theory Spec2Isabelle
  imports Complex_Main
begin

section \<open>The type checker of interp/typecheck.go\<close>

text \<open>
  The checker works on three kinds of data that it imports: the kinds of Go's
  \<^verbatim>\<open>reflect\<close> package, the exact constants of \<^verbatim>\<open>go/constant\<close>, and the
  interpreter's own type descriptors and syntax nodes. Each is modelled below, then
  the functions of typecheck.go in the order of the file.
\<close>

subsection \<open>reflect.Kind\<close>

text \<open>
  The enumeration \<^verbatim>\<open>reflect.Kind\<close>, in the order of its declaration. A
  \<^verbatim>\<open>reflect.Type\<close> is represented by its kind: the checker asks a type for
  nothing else. The kind \<^verbatim>\<open>reflect.Int\<close> is written \<open>IntK\<close>.
\<close>

datatype rkind =
    Invalid | Bool | IntK | Int8 | Int16 | Int32 | Int64
  | Uint | Uint8 | Uint16 | Uint32 | Uint64 | Uintptr
  | Float32 | Float64 | Complex64 | Complex128
  | Array | Chan | Func | Interface | Map | Ptr | Slice | String | Struct | UnsafePointer

text \<open>The numeric value of a kind: \<^verbatim>\<open>nkind < tkind\<close> compares these.\<close>

fun kind_num :: "rkind \<Rightarrow> nat" where
  "kind_num Invalid = 0"
| "kind_num Bool = 1"
| "kind_num IntK = 2"
| "kind_num Int8 = 3"
| "kind_num Int16 = 4"
| "kind_num Int32 = 5"
| "kind_num Int64 = 6"
| "kind_num Uint = 7"
| "kind_num Uint8 = 8"
| "kind_num Uint16 = 9"
| "kind_num Uint32 = 10"
| "kind_num Uint64 = 11"
| "kind_num Uintptr = 12"
| "kind_num Float32 = 13"
| "kind_num Float64 = 14"
| "kind_num Complex64 = 15"
| "kind_num Complex128 = 16"
| "kind_num Array = 17"
| "kind_num Chan = 18"
| "kind_num Func = 19"
| "kind_num Interface = 20"
| "kind_num Map = 21"
| "kind_num Ptr = 22"
| "kind_num Slice = 23"
| "kind_num String = 24"
| "kind_num Struct = 25"
| "kind_num UnsafePointer = 26"

text \<open>
  Modelled from the spec: the predicates on a backing type (is-integer, is-float,
  is-complex, is-numeric, is-string, is-boolean). Their declarations are in another
  file of the package.
\<close>

definition isSigned :: "rkind \<Rightarrow> bool" where
  "isSigned k = (k \<in> {IntK, Int8, Int16, Int32, Int64})"

definition isUnsigned :: "rkind \<Rightarrow> bool" where
  "isUnsigned k = (k \<in> {Uint, Uint8, Uint16, Uint32, Uint64, Uintptr})"

definition isInt :: "rkind \<Rightarrow> bool" where
  "isInt k = (isSigned k \<or> isUnsigned k)"

definition isFloat :: "rkind \<Rightarrow> bool" where
  "isFloat k = (k \<in> {Float32, Float64})"

definition isComplex :: "rkind \<Rightarrow> bool" where
  "isComplex k = (k \<in> {Complex64, Complex128})"

definition isNumber :: "rkind \<Rightarrow> bool" where
  "isNumber k = (isInt k \<or> isFloat k \<or> isComplex k)"

definition isString :: "rkind \<Rightarrow> bool" where
  "isString k = (k = String)"

definition isBoolean :: "rkind \<Rightarrow> bool" where
  "isBoolean k = (k = Bool)"

subsection \<open>go/constant\<close>

text \<open>
  A \<^verbatim>\<open>constant.Value\<close>: Unknown, a boolean, a string, an integer of any size, a
  float or a complex number. Floats are kept as exact rationals (the library also has a
  512-bit binary representation for very large and very small floats, which is not
  modelled), and a complex number as its two rational parts.
\<close>

datatype cvalue =
    CUnknown
  | CBool bool
  | CString string
  | CInt int
  | CFloat rat
  | CComplex rat rat

datatype ckind = KUnknown | KBool | KString | KInt | KFloat | KComplex

fun Kind :: "cvalue \<Rightarrow> ckind" where
  "Kind CUnknown = KUnknown"
| "Kind (CBool _) = KBool"
| "Kind (CString _) = KString"
| "Kind (CInt _) = KInt"
| "Kind (CFloat _) = KFloat"
| "Kind (CComplex _ _) = KComplex"

definition rat_is_int :: "rat \<Rightarrow> bool" where
  "rat_is_int r = (of_int \<lfloor>r\<rfloor> = r)"

text \<open>\<^verbatim>\<open>constant.ToFloat\<close>: a complex number with a zero imaginary part is its real part.\<close>

fun ToFloat :: "cvalue \<Rightarrow> cvalue" where
  "ToFloat (CInt i) = CFloat (of_int i)"
| "ToFloat (CFloat r) = CFloat r"
| "ToFloat (CComplex re im) = (if im = 0 then CFloat re else CUnknown)"
| "ToFloat _ = CUnknown"

text \<open>
  \<^verbatim>\<open>constant.ToInt\<close>: the Int value when the constant is integral, Unknown
  otherwise. (The library also takes a binary float that is integral up to a few bits
  of rounding error for non-integral; with exact rationals there is no such case.)
\<close>

fun ToInt :: "cvalue \<Rightarrow> cvalue" where
  "ToInt (CInt i) = CInt i"
| "ToInt (CFloat r) = (if rat_is_int r then CInt \<lfloor>r\<rfloor> else CUnknown)"
| "ToInt (CComplex re im) =
     (if im = 0 then (if rat_is_int re then CInt \<lfloor>re\<rfloor> else CUnknown) else CUnknown)"
| "ToInt _ = CUnknown"

fun ToComplex :: "cvalue \<Rightarrow> cvalue" where
  "ToComplex (CInt i) = CComplex (of_int i) 0"
| "ToComplex (CFloat r) = CComplex r 0"
| "ToComplex (CComplex re im) = CComplex re im"
| "ToComplex _ = CUnknown"

text \<open>
  \<^verbatim>\<open>constant.Real\<close> and \<^verbatim>\<open>constant.Imag\<close> panic on a boolean or a
  string: \<open>None\<close>.
\<close>

fun Real :: "cvalue \<Rightarrow> cvalue option" where
  "Real CUnknown = Some CUnknown"
| "Real (CInt i) = Some (CInt i)"
| "Real (CFloat r) = Some (CFloat r)"
| "Real (CComplex re im) = Some (CFloat re)"
| "Real _ = None"

fun Imag :: "cvalue \<Rightarrow> cvalue option" where
  "Imag CUnknown = Some CUnknown"
| "Imag (CInt i) = Some (CInt 0)"
| "Imag (CFloat r) = Some (CInt 0)"
| "Imag (CComplex re im) = Some (CFloat im)"
| "Imag _ = None"

text \<open>
  \<^verbatim>\<open>constant.Sign\<close>: -1, 0 or 1; 1 for Unknown; for a complex number 0 exactly when
  it is zero. It panics on a boolean or a string: \<open>None\<close>.
\<close>

fun Sign :: "cvalue \<Rightarrow> int option" where
  "Sign CUnknown = Some 1"
| "Sign (CInt i) = Some (sgn i)"
| "Sign (CFloat r) = Some (if r < 0 then -1 else if r = 0 then 0 else 1)"
| "Sign (CComplex re im) = Some (if re = 0 \<and> im = 0 then 0 else 1)"
| "Sign _ = None"

text \<open>The wrap-around of an integer to \<open>w\<close> bits, read as unsigned and as two's complement.\<close>

definition uwrap :: "nat \<Rightarrow> int \<Rightarrow> int" where
  "uwrap w i = i mod 2 ^ w"

definition swrap :: "nat \<Rightarrow> int \<Rightarrow> int" where
  "swrap w i = (i + 2 ^ (w - 1)) mod 2 ^ w - 2 ^ (w - 1)"

text \<open>
  \<^verbatim>\<open>constant.Int64Val\<close> and \<^verbatim>\<open>constant.Uint64Val\<close>: the native value and whether
  it is exact. Unknown gives \<open>(0, False)\<close>. An inexact value is the low 64 bits. The
  checker applies both to results of \<open>ToInt\<close> only, which are Int or Unknown.
\<close>

fun Int64Val :: "cvalue \<Rightarrow> int \<times> bool" where
  "Int64Val (CInt i) = (swrap 64 i, - (2 ^ 63) \<le> i \<and> i < 2 ^ 63)"
| "Int64Val _ = (0, False)"

fun Uint64Val :: "cvalue \<Rightarrow> int \<times> bool" where
  "Uint64Val (CInt i) = (uwrap 64 i, 0 \<le> i \<and> i < 2 ^ 64)"
| "Uint64Val _ = (0, False)"

text \<open>
  \<^verbatim>\<open>constant.BitLen\<close>: the number of bits of the absolute value of an Int; 0 for
  Unknown.
\<close>

fun bits :: "nat \<Rightarrow> nat" where
  "bits n = (if n = 0 then 0 else Suc (bits (n div 2)))"

declare bits.simps [simp del]

fun BitLen :: "cvalue \<Rightarrow> nat" where
  "BitLen (CInt i) = bits (nat \<bar>i\<bar>)"
| "BitLen _ = 0"

text \<open>
  \<^verbatim>\<open>constant.Float32Val\<close> and \<^verbatim>\<open>constant.Float64Val\<close> round to the nearest
  float, ties to even. The checker looks at one thing in the result: whether it is an
  infinity, which is the case from the midpoint between the largest finite float and the
  next power of two on. The two midpoints:
\<close>

definition inf32 :: rat where
  "inf32 = 2 ^ 128 - 2 ^ 103"

definition inf64 :: rat where
  "inf64 = 2 ^ 1024 - 2 ^ 970"

text \<open>
  Whether the float of the given precision nearest to a numeric constant is an
  infinity. Unknown converts to 0.
\<close>

fun float_val :: "cvalue \<Rightarrow> rat" where
  "float_val (CInt i) = of_int i"
| "float_val (CFloat r) = r"
| "float_val _ = 0"

definition Float32IsInf :: "cvalue \<Rightarrow> bool" where
  "Float32IsInf x = (inf32 \<le> \<bar>float_val x\<bar>)"

definition Float64IsInf :: "cvalue \<Rightarrow> bool" where
  "Float64IsInf x = (inf64 \<le> \<bar>float_val x\<bar>)"

subsection \<open>bitlen and representableConst\<close>

text \<open>
  The table \<^verbatim>\<open>bitlen\<close>, an array indexed by kind that ends at \<^verbatim>\<open>reflect.Uintptr\<close>;
  the two entries before \<^verbatim>\<open>reflect.Int\<close> are zero.
\<close>

definition bitlen :: "nat list" where
  "bitlen = [0, 0, 64, 8, 16, 32, 64, 64, 8, 16, 32, 64, 64]"

text \<open>
  \<^verbatim>\<open>representableConst\<close>. In the integer case the inner switch returns false unless
  the native conversion is exact, and the result is the comparison of the bit length
  with the table.
\<close>

definition representableConst :: "cvalue \<Rightarrow> rkind \<Rightarrow> bool" where
  "representableConst c t =
    (if isInt t then
       (let x = ToInt c in
        if Kind x \<noteq> KInt then False
        else if isSigned t \<and> \<not> snd (Int64Val x) then False
        else if \<not> isSigned t \<and> isUnsigned t \<and> \<not> snd (Uint64Val x) then False
        else if \<not> isSigned t \<and> \<not> isUnsigned t then False
        else BitLen x \<le> bitlen ! kind_num t)
     else if isFloat t then
       (let x = ToFloat c in
        if Kind x \<noteq> KFloat then False
        else if t = Float32 then \<not> Float32IsInf x
        else if t = Float64 then \<not> Float64IsInf x
        else False)
     else if isComplex t then
       (let x = ToComplex c in
        case x of
          CComplex re im \<Rightarrow>
            if t = Complex64 then \<not> Float32IsInf (CFloat re) \<and> \<not> Float32IsInf (CFloat im)
            else if t = Complex128 then \<not> Float64IsInf (CFloat re) \<and> \<not> Float64IsInf (CFloat im)
            else False
        | _ \<Rightarrow> False)
     else if isString t then Kind c = KString
     else if isBoolean t then Kind c = KBool
     else False)"

subsection \<open>Type descriptors\<close>

text \<open>
  Modelled from the spec: the type descriptor \<^verbatim>\<open>itype\<close>, whose declaration is in
  another file of the package. It has a category, a name, the untyped flag, a backing
  type (what \<^verbatim>\<open>TypeOf\<close> returns) and a method set. Descriptors are never
  modified by the checker: it replaces the descriptor a node points to.
\<close>

datatype tcat =
    nilT | arrayT | boolT | chanT | chanSendT | chanRecvT | complex64T | complex128T
  | float32T | float64T | funcT | interfaceT | intT | int8T | int16T | int32T | int64T
  | mapT | ptrT | sliceT | stringT | structT
  | uintT | uint8T | uint16T | uint32T | uint64T | uintptrT

record itype =
  cat :: tcat
  name :: string
  untyped :: bool
  rtype :: rkind
  methods :: "string list"

definition TypeOf :: "itype \<Rightarrow> rkind" where
  "TypeOf t = rtype t"

text \<open>
  Modelled from the spec: the tests of the category of a descriptor (the nil type, an
  interface, an array, a map, a channel with any direction, a send-only channel, a
  function, a pointer).
\<close>

definition isNil :: "itype \<Rightarrow> bool" where
  "isNil t = (cat t = nilT)"

definition isInterface :: "itype \<Rightarrow> bool" where
  "isInterface t = (cat t = interfaceT)"

definition isArray :: "itype \<Rightarrow> bool" where
  "isArray t = (cat t = arrayT)"

definition isMap :: "itype \<Rightarrow> bool" where
  "isMap t = (cat t = mapT)"

definition isChan :: "itype \<Rightarrow> bool" where
  "isChan t = (cat t \<in> {chanT, chanSendT, chanRecvT})"

definition isSendChan :: "itype \<Rightarrow> bool" where
  "isSendChan t = (cat t = chanSendT)"

definition isFunc :: "itype \<Rightarrow> bool" where
  "isFunc t = (cat t = funcT)"

definition isPtr :: "itype \<Rightarrow> bool" where
  "isPtr t = (cat t = ptrT)"

text \<open>
  Modelled from the spec: the default type of an untyped descriptor (untyped bool to
  bool, untyped rune and int to int, untyped float to float64, untyped complex to
  complex128, untyped string to string), with the untyped flag cleared. A descriptor
  that is not untyped is its own default type.
\<close>

definition default_of :: "rkind \<Rightarrow> (tcat \<times> string \<times> rkind) option" where
  "default_of k =
    (if k = Bool then Some (boolT, ''bool'', Bool)
     else if k = IntK \<or> k = Int32 then Some (intT, ''int'', IntK)
     else if isFloat k then Some (float64T, ''float64'', Float64)
     else if isComplex k then Some (complex128T, ''complex128'', Complex128)
     else if k = String then Some (stringT, ''string'', String)
     else None)"

definition defaultType :: "itype \<Rightarrow> itype" where
  "defaultType t =
    (if \<not> untyped t then t
     else case default_of (rtype t) of
            Some (c, s, k) \<Rightarrow> t\<lparr>cat := c, name := s, untyped := False, rtype := k\<rparr>
          | None \<Rightarrow> t\<lparr>untyped := False\<rparr>)"

text \<open>
  The methods of a descriptor that relate two types or classify one by its structure
  (\<^verbatim>\<open>equals\<close>, \<^verbatim>\<open>assignableTo\<close>, \<^verbatim>\<open>comparable\<close>, \<^verbatim>\<open>ordered\<close>,
  \<^verbatim>\<open>hasNil\<close>) are declared in another file too; the checker is modelled for any
  such methods, which it takes as a parameter.
\<close>

record type_methods =
  equals :: "itype \<Rightarrow> itype \<Rightarrow> bool"
  assignableTo :: "itype \<Rightarrow> itype \<Rightarrow> bool"
  comparable :: "itype \<Rightarrow> bool"
  ordered :: "itype \<Rightarrow> bool"
  hasNil :: "itype \<Rightarrow> bool"

subsection \<open>Nodes, values and results\<close>

text \<open>
  A \<^verbatim>\<open>reflect.Value\<close> in the value slot of a node: the zero Value (not valid), a
  \<^verbatim>\<open>constant.Value\<close>, a native value produced by \<^verbatim>\<open>convertConst\<close>, or any
  other Go value. A native integer is kept with its kind, a native float as the
  rational it was rounded from, with its kind.
\<close>

datatype rvalue =
    RInvalid
  | RConst cvalue
  | RBool bool
  | RString string
  | RInt rkind int
  | RFloat rkind rat
  | RComplex rkind rat rat
  | ROther

text \<open>
  The syntactic forms and the operators the checker names; \<open>otherKind\<close> and
  \<open>aOther\<close> stand for the remaining members of the two enumerations.
\<close>

datatype nkind =
    constDecl | parenExpr | selectorExpr | indexExpr | compositeLitExpr | identExpr
  | otherKind

datatype action =
    aAssign | aAdd | aAddAssign | aAnd | aAndAssign | aAndNot | aAndNotAssign | aBitNot
  | aEqual | aGreater | aGreaterEqual | aLand | aLor | aLower | aLowerEqual
  | aMul | aMulAssign | aNeg | aNot | aNotEqual | aOr | aOrAssign | aPos
  | aQuo | aQuoAssign | aRecv | aRem | aRemAssign | aShl | aShlAssign | aShr | aShrAssign
  | aSub | aSubAssign | aXor | aXorAssign | aOther

text \<open>
  A node, with the fields the checker reads and writes. \<open>anc\<close> is the kind of the
  ancestor node, \<open>None\<close> when there is none; \<open>typ_of\<close> is the field
  \<^verbatim>\<open>typ\<close>, \<open>None\<close> for a nil descriptor.
\<close>

datatype node =
  Node (kind: nkind) (action: action) (typ_of: "itype option") (rval: rvalue)
       (anc: "nkind option") (nleft: nat) (nright: nat) (child: "node list")

fun set_typ :: "itype option \<Rightarrow> node \<Rightarrow> node" where
  "set_typ t (Node k a _ v p l r cs) = Node k a t v p l r cs"

fun set_rval :: "rvalue \<Rightarrow> node \<Rightarrow> node" where
  "set_rval v (Node k a t _ p l r cs) = Node k a t v p l r cs"

fun set_child :: "node list \<Rightarrow> node \<Rightarrow> node" where
  "set_child cs (Node k a t v p l r _) = Node k a t v p l r cs"

text \<open>
  The errors of the checker, each a format of \<^verbatim>\<open>cfgErrorf\<close> with its arguments:
  a type where the message prints \<^verbatim>\<open>typ.id()\<close>, a constant where it prints
  \<^verbatim>\<open>c.ExactString()\<close>, a kind where it prints \<^verbatim>\<open>t.Kind().String()\<close>.
\<close>

datatype error =
    OpNotDefined action itype
  | UnknownOperator action
  | CannotUse itype itype
  | RequiresSingleValued action
  | CannotTakeAddress itype
  | ReceiveFromNonChannel itype
  | ReceiveFromSendOnly itype
  | ShiftOfType itype
  | ShiftCount itype
  | MismatchedTypes itype itype
  | DivisionByZero
  | CannotConvert itype itype
  | Truncated cvalue rkind
  | Overflows cvalue rkind
  | CannotConvertConst cvalue rkind

text \<open>
  What a call leaves behind: the nodes as the call left them, with the error if it
  returned one, or a panic (a nil dereference, an index out of range, a failed type
  assertion, a \<^verbatim>\<open>go/constant\<close> function outside its domain). The nodes are part of
  the error result because the checker writes to them before it fails.
\<close>

datatype 's outcome = Ok 's | Err error 's | Panic

subsection \<open>op and the predicate tables\<close>

definition op ::
  "(action \<Rightarrow> (rkind \<Rightarrow> bool) option) \<Rightarrow> action \<Rightarrow> node \<Rightarrow> node \<Rightarrow> rkind \<Rightarrow> unit outcome"
where
  "op p a n c t =
    (case p a of
       Some pred \<Rightarrow>
         if \<not> pred t then
           (case typ_of c of None \<Rightarrow> Panic | Some ct \<Rightarrow> Err (OpNotDefined (action n) ct) ())
         else Ok ()
     | None \<Rightarrow> Err (UnknownOperator (action n)) ())"

definition unaryOpPredicates :: "action \<Rightarrow> (rkind \<Rightarrow> bool) option" where
  "unaryOpPredicates a =
    (if a = aPos then Some isNumber
     else if a = aNeg then Some isNumber
     else if a = aBitNot then Some isInt
     else if a = aNot then Some isBoolean
     else None)"

definition binaryOpPredicates :: "action \<Rightarrow> (rkind \<Rightarrow> bool) option" where
  "binaryOpPredicates a =
    (if a = aAdd then Some (\<lambda>t. isNumber t \<or> isString t)
     else if a \<in> {aSub, aMul, aQuo} then Some isNumber
     else if a \<in> {aRem, aAnd, aOr, aXor, aAndNot} then Some isInt
     else if a \<in> {aLand, aLor} then Some isBoolean
     else None)"

subsection \<open>representable and convertConst\<close>

text \<open>
  \<^verbatim>\<open>representable\<close>: no error when the value slot is not valid or does not hold a
  constant; otherwise the error is chosen by the backing type of the node and the
  target.
\<close>

definition representable :: "node \<Rightarrow> rkind \<Rightarrow> unit outcome" where
  "representable n t =
    (case rval n of
       RConst c \<Rightarrow>
         if \<not> representableConst c t then
           (case typ_of n of
              None \<Rightarrow> Panic
            | Some nt \<Rightarrow>
                let ty = TypeOf nt in
                if isNumber ty \<and> isNumber t then
                  (if \<not> isInt ty \<and> isInt t then Err (Truncated c t) ()
                   else Err (Overflows c t) ())
                else Err (CannotConvertConst c t) ())
         else Ok ()
     | _ \<Rightarrow> Ok ())"

text \<open>
  \<^verbatim>\<open>convertConst\<close> returns the new value, or the old one with
  \<^verbatim>\<open>errCantConvert\<close>, its only error. \<^verbatim>\<open>BoolVal\<close> and \<^verbatim>\<open>StringVal\<close>
  panic on a constant of another kind that is not Unknown. A native integer is the
  64-bit value converted to the target type, which keeps the low bits.
\<close>

datatype convres = Conv rvalue | CantConvert rvalue | ConvPanic

definition convertConst :: "rvalue \<Rightarrow> rkind \<Rightarrow> convres" where
  "convertConst v t =
    (case v of
       RConst c \<Rightarrow>
         if t = Bool then
           (case c of CBool b \<Rightarrow> Conv (RBool b) | CUnknown \<Rightarrow> Conv (RBool False)
            | _ \<Rightarrow> ConvPanic)
         else if t = String then
           (case c of CString s \<Rightarrow> Conv (RString s) | CUnknown \<Rightarrow> Conv (RString [])
            | _ \<Rightarrow> ConvPanic)
         else if isSigned t then
           Conv (RInt t (swrap (bitlen ! kind_num t) (fst (Int64Val (ToInt c)))))
         else if isUnsigned t then
           Conv (RInt t (uwrap (bitlen ! kind_num t) (fst (Uint64Val (ToInt c)))))
         else if t = Float32 \<or> t = Float64 then
           Conv (RFloat t (float_val (ToFloat c)))
         else if t = Complex64 \<or> t = Complex128 then
           (case (Real c, Imag c) of
              (Some r, Some i) \<Rightarrow> Conv (RComplex t (float_val r) (float_val i))
            | _ \<Rightarrow> ConvPanic)
         else CantConvert v
     | _ \<Rightarrow> Conv v)"

subsection \<open>convertUntyped\<close>

text \<open>
  The end of \<^verbatim>\<open>convertUntyped\<close>, after the switch: the representability check,
  the conversion of the value (the value slot is assigned before the error is looked
  at) and the new type. As \<^verbatim>\<open>errCantConvert\<close> is the only error of
  \<^verbatim>\<open>convertConst\<close>, the last error branch of the source is never taken.
\<close>

definition convert_value :: "node \<Rightarrow> itype \<Rightarrow> rkind \<Rightarrow> error \<Rightarrow> node outcome" where
  "convert_value n ityp rtyp convErr =
    (case representable n rtyp of
       Panic \<Rightarrow> Panic
     | Err e _ \<Rightarrow> Err e n
     | Ok _ \<Rightarrow>
         (case convertConst (rval n) rtyp of
            ConvPanic \<Rightarrow> Panic
          | CantConvert v \<Rightarrow> Err convErr (set_rval v n)
          | Conv v \<Rightarrow> Ok (set_typ (Some ityp) (set_rval v n))))"

definition convertUntyped :: "node \<Rightarrow> itype option \<Rightarrow> node outcome" where
  "convertUntyped n target =
    (case (typ_of n, target) of
       (Some nt, Some ty) \<Rightarrow>
         if \<not> untyped nt then Ok n
         else
           let convErr = CannotConvert nt ty; ntyp = TypeOf nt; ttyp = TypeOf ty in
           if untyped ty then
             (if isNumber ntyp \<and> isNumber ttyp then
                (if kind_num ntyp < kind_num ttyp then Ok (set_typ (Some ty) n) else Ok n)
              else if ntyp \<noteq> ttyp then Err convErr n
              else Ok n)
           else if isNil ty \<and> isNil nt then Ok (set_typ (Some ty) n)
           else if isNumber ttyp \<or> isString ttyp \<or> isBoolean ttyp then
             convert_value n ty ttyp convErr
           else if isInterface ty then
             (if isNil nt then Ok n
              else if length (methods nt) > 0 then Err convErr n
              else convert_value n (defaultType nt) ntyp convErr)
           else if isArray ty \<or> isMap ty \<or> isChan ty \<or> isFunc ty \<or> isPtr ty then
             (if \<not> isNil nt then Err convErr n else Ok n)
           else Err convErr n
     | _ \<Rightarrow> Ok n)"

subsection \<open>The expression checkers\<close>

text \<open>The nodes a call leaves behind, whether it returned an error or not.\<close>

fun left_by :: "'s outcome \<Rightarrow> 's option" where
  "left_by (Ok s) = Some s"
| "left_by (Err _ s) = Some s"
| "left_by Panic = None"

text \<open>
  \<^verbatim>\<open>addressExpr\<close>. The loop follows one child at each step, so it is a recursion on
  the tree; \<open>address_of\<close> is the loop from the current \<open>c0\<close> on. Leaving the switch
  (an index expression whose base is neither an array nor a map, or any other form)
  reaches the error after it.
\<close>

definition cannot_take_address :: "node \<Rightarrow> unit outcome" where
  "cannot_take_address c0 =
    (case typ_of c0 of None \<Rightarrow> Panic | Some t \<Rightarrow> Err (CannotTakeAddress t) ())"

fun address_of :: "node \<Rightarrow> unit outcome" where
  "address_of (Node k a t v p l r cs) =
    (if k = parenExpr then
       (case cs of c # _ \<Rightarrow> address_of c | [] \<Rightarrow> Panic)
     else if k = selectorExpr then
       (case cs of _ # c # _ \<Rightarrow> address_of c | _ \<Rightarrow> Panic)
     else if k = indexExpr then
       (case cs of
          c # _ \<Rightarrow>
            (case typ_of c of
               None \<Rightarrow> Panic
             | Some ct \<Rightarrow>
                 if isArray ct \<or> isMap ct then address_of c
                 else cannot_take_address (Node k a t v p l r cs))
        | [] \<Rightarrow> Panic)
     else if k = compositeLitExpr \<or> k = identExpr then Ok ()
     else cannot_take_address (Node k a t v p l r cs))"

definition addressExpr :: "node \<Rightarrow> node outcome" where
  "addressExpr n =
    (case child n of
       [] \<Rightarrow> Panic
     | c0 # _ \<Rightarrow>
         (case address_of c0 of Ok _ \<Rightarrow> Ok n | Err e _ \<Rightarrow> Err e n | Panic \<Rightarrow> Panic))"

text \<open>\<^verbatim>\<open>unaryExpr\<close> writes nothing.\<close>

definition unaryExpr :: "node \<Rightarrow> node outcome" where
  "unaryExpr n =
    (case child n of
       [] \<Rightarrow> Panic
     | c0 # _ \<Rightarrow>
         (case typ_of c0 of
            None \<Rightarrow> Panic
          | Some ty0 \<Rightarrow>
              if action n = aRecv then
                (if \<not> isChan ty0 then Err (ReceiveFromNonChannel ty0) n
                 else if isSendChan ty0 then Err (ReceiveFromSendOnly ty0) n
                 else Ok n)
              else
                (case op unaryOpPredicates (action n) n c0 (TypeOf ty0) of
                   Panic \<Rightarrow> Panic
                 | Err e _ \<Rightarrow> Err e n
                 | Ok _ \<Rightarrow> Ok n)))"

text \<open>
  \<^verbatim>\<open>shift\<close>. The value slot of an untyped left operand is overwritten before the
  operand is checked; the type assertion on it panics when the slot holds no constant.
\<close>

definition uint_type :: itype where
  "uint_type = \<lparr>cat = uintT, name = ''uint'', untyped = False, rtype = Uint, methods = []\<rparr>"

definition shift :: "node \<Rightarrow> node outcome" where
  "shift n =
    (case child n of
       c0 # c1 # rest \<Rightarrow>
         (case (typ_of c0, typ_of c1) of
            (Some ty0, Some ty1) \<Rightarrow>
              let t0 = TypeOf ty0; t1 = TypeOf ty1 in
              (case (if untyped ty0 then
                       (case rval c0 of
                          RConst c \<Rightarrow> Some (Some (ToInt c), set_rval (RConst (ToInt c)) c0)
                        | _ \<Rightarrow> None)
                     else Some (None, c0)) of
                 None \<Rightarrow> Panic
               | Some (v0, c0') \<Rightarrow>
                   let n' = set_child (c0' # c1 # rest) n in
                   if \<not> (untyped ty0 \<and> v0 \<noteq> None \<and> map_option Kind v0 = Some KInt \<or> isInt t0)
                   then Err (ShiftOfType ty0) n'
                   else if untyped ty1 then
                     (case convertUntyped c1 (Some uint_type) of
                        Panic \<Rightarrow> Panic
                      | Err _ c1' \<Rightarrow>
                          (case typ_of c1' of
                             None \<Rightarrow> Panic
                           | Some ty1' \<Rightarrow> Err (ShiftCount ty1') (set_child (c0' # c1' # rest) n))
                      | Ok c1' \<Rightarrow> Ok (set_child (c0' # c1' # rest) n))
                   else if isInt t1 then Ok n'
                   else Err (ShiftCount ty1) n')
          | _ \<Rightarrow> Panic)
     | _ \<Rightarrow> Panic)"

text \<open>\<^verbatim>\<open>comparison\<close> writes nothing.\<close>

definition comparison :: "type_methods \<Rightarrow> node \<Rightarrow> node outcome" where
  "comparison tm n =
    (case child n of
       c0 # c1 # _ \<Rightarrow>
         (case (typ_of c0, typ_of c1) of
            (Some t0, Some t1) \<Rightarrow>
              if \<not> assignableTo tm t0 t1 \<and> \<not> assignableTo tm t1 t0
              then Err (MismatchedTypes t0 t1) n
              else
                let ok =
                  (if action n \<in> {aEqual, aNotEqual} then
                     comparable tm t0 \<and> comparable tm t1 \<or> isNil t0 \<and> hasNil tm t1
                       \<or> isNil t1 \<and> hasNil tm t0
                   else if action n \<in> {aLower, aLowerEqual, aGreater, aGreaterEqual} then
                     ordered tm t0 \<and> ordered tm t1
                   else False)
                in
                if \<not> ok then Err (OpNotDefined (action n) (if isNil t0 then t1 else t0)) n
                else Ok n
          | _ \<Rightarrow> Panic)
     | _ \<Rightarrow> Panic)"

definition isShiftAction :: "action \<Rightarrow> bool" where
  "isShiftAction a = (a \<in> {aShl, aShr, aShlAssign, aShrAssign})"

definition isComparisonAction :: "action \<Rightarrow> bool" where
  "isComparisonAction a =
    (a \<in> {aEqual, aNotEqual, aGreater, aGreaterEqual, aLower, aLowerEqual})"

text \<open>
  Modelled from the spec: \<^verbatim>\<open>isAssignAction\<close> holds of the compound assignment
  operators, and each of them follows its base operator in the enumeration, so that
  \<^verbatim>\<open>a--\<close> is the base operator.
\<close>

definition isAssignAction :: "action \<Rightarrow> bool" where
  "isAssignAction a =
    (a \<in> {aAddAssign, aAndAssign, aAndNotAssign, aMulAssign, aOrAssign, aQuoAssign,
          aRemAssign, aShlAssign, aShrAssign, aSubAssign, aXorAssign})"

fun decrement :: "action \<Rightarrow> action" where
  "decrement aAddAssign = aAdd"
| "decrement aAndAssign = aAnd"
| "decrement aAndNotAssign = aAndNot"
| "decrement aMulAssign = aMul"
| "decrement aOrAssign = aOr"
| "decrement aQuoAssign = aQuo"
| "decrement aRemAssign = aRem"
| "decrement aShlAssign = aShl"
| "decrement aShrAssign = aShr"
| "decrement aSubAssign = aSub"
| "decrement aXorAssign = aXor"
| "decrement a = a"

text \<open>
  \<^verbatim>\<open>binaryExpr\<close>. The errors of the two calls of \<^verbatim>\<open>convertUntyped\<close> are dropped,
  what they wrote stays. The switch at the end is on the action of the node, not on the
  base operator.
\<close>

definition division_by_zero :: "itype \<Rightarrow> itype \<Rightarrow> node \<Rightarrow> node \<Rightarrow> node outcome" where
  "division_by_zero ty0 ty1 c1 n =
    (if (untyped ty0 \<or> isInt (TypeOf ty0)) \<and> untyped ty1 then
       (case rval c1 of
          RConst c \<Rightarrow>
            (case Sign c of
               None \<Rightarrow> Panic
             | Some s \<Rightarrow> if s = 0 then Err DivisionByZero n else Ok n)
        | _ \<Rightarrow> Panic)
     else Ok n)"

definition binaryExpr :: "type_methods \<Rightarrow> node \<Rightarrow> node outcome" where
  "binaryExpr tm n =
    (case child n of
       c0 # c1 # rest \<Rightarrow>
         let a = (if isAssignAction (action n) then decrement (action n) else action n) in
         if isShiftAction a then shift n
         else
           (case left_by (convertUntyped c0 (typ_of c1)) of
              None \<Rightarrow> Panic
            | Some c0' \<Rightarrow>
                (case left_by (convertUntyped c1 (typ_of c0')) of
                   None \<Rightarrow> Panic
                 | Some c1' \<Rightarrow>
                     let n' = set_child (c0' # c1' # rest) n in
                     if isComparisonAction a then comparison tm n'
                     else
                       (case (typ_of c0', typ_of c1') of
                          (Some ty0, Some ty1) \<Rightarrow>
                            if \<not> equals tm ty0 ty1 then Err (MismatchedTypes ty0 ty1) n'
                            else
                              (case op binaryOpPredicates a n' c0' (TypeOf ty0) of
                                 Panic \<Rightarrow> Panic
                               | Err e _ \<Rightarrow> Err e n'
                               | Ok _ \<Rightarrow>
                                   if action n = aQuo \<or> action n = aRem
                                   then division_by_zero ty0 ty1 c1' n'
                                   else Ok n')
                        | _ \<Rightarrow> Panic)))
     | _ \<Rightarrow> Panic)"

text \<open>
  \<^verbatim>\<open>assignExpr\<close>, on the node of the assignment and one pair of destination and
  source. The result holds the three nodes.
\<close>

definition check_assignable ::
  "type_methods \<Rightarrow> node \<Rightarrow> node \<Rightarrow> node \<Rightarrow> (node \<times> node \<times> node) outcome"
where
  "check_assignable tm n dest src =
    (case (typ_of src, typ_of dest) of
       (Some st, Some dt) \<Rightarrow>
         if \<not> assignableTo tm st dt then Err (CannotUse st dt) (n, dest, src)
         else Ok (n, dest, src)
     | _ \<Rightarrow> Panic)"

definition assignExpr ::
  "type_methods \<Rightarrow> node \<Rightarrow> node \<Rightarrow> node \<Rightarrow> (node \<times> node \<times> node) outcome"
where
  "assignExpr tm n dest src =
    (if action n = aAssign then
       (case anc n of
          None \<Rightarrow> Panic
        | Some ak \<Rightarrow>
            (case (if ak \<noteq> constDecl
                   then map_option (\<lambda>dt. set_typ (Some (defaultType dt)) dest) (typ_of dest)
                   else Some dest) of
               None \<Rightarrow> Panic
             | Some dest' \<Rightarrow>
                 (case typ_of src of
                    None \<Rightarrow> Panic
                  | Some st \<Rightarrow>
                      if untyped st then
                        (case typ_of dest' of
                           None \<Rightarrow> Panic
                         | Some dt \<Rightarrow>
                             let ty = (if isNil dt \<or> isInterface dt then defaultType st else dt)
                             in
                             (case convertUntyped src (Some ty) of
                                Panic \<Rightarrow> Panic
                              | Err e src' \<Rightarrow> Err e (n, dest', src')
                              | Ok src' \<Rightarrow> check_assignable tm n dest' src'))
                      else check_assignable tm n dest' src)))
     else if nleft n > 1 \<or> nright n > 1 then
       Err (RequiresSingleValued (action n)) (n, dest, src)
     else
       (case binaryExpr tm n of
          Panic \<Rightarrow> Panic
        | Err e n' \<Rightarrow> Err e (n', dest, src)
        | Ok n' \<Rightarrow> Ok (n', dest, src)))"

subsection \<open>The address-of rule in the words of the specification\<close>

text \<open>
  One step of unwrapping: a parenthesized expression gives its first child, a selector
  expression its second, an index expression its base when the base is an array or a
  map. Nothing else is unwrapped.
\<close>

definition unwrap :: "node \<Rightarrow> node option" where
  "unwrap c =
    (if kind c = parenExpr then
       (case child c of c' # _ \<Rightarrow> Some c' | [] \<Rightarrow> None)
     else if kind c = selectorExpr then
       (case child c of _ # c' # _ \<Rightarrow> Some c' | _ \<Rightarrow> None)
     else if kind c = indexExpr then
       (case child c of
          c' # _ \<Rightarrow>
            (case typ_of c' of
               Some ct \<Rightarrow> if isArray ct \<or> isMap ct then Some c' else None
             | None \<Rightarrow> None)
        | [] \<Rightarrow> None)
     else None)"

text \<open>The terminal form: what repeated unwrapping reaches.\<close>

function terminal :: "node \<Rightarrow> node" where
  "terminal c = (case unwrap c of None \<Rightarrow> c | Some c' \<Rightarrow> terminal c')"
  by pat_completeness auto
termination
proof (relation "measure size")
  show "wf (measure size)" by simp
next
  fix c c' :: node
  assume u: "unwrap c = Some c'"
  obtain k a t v p l r cs where c: "c = Node k a t v p l r cs" by (cases c)
  from u c have "c' \<in> set cs"
    by (auto simp: unwrap_def split: if_splits list.splits option.splits)
  then have "size c' \<le> size_list size cs"
    by (simp add: size_list_estimation')
  with c show "(c', c) \<in> measure size" by simp
qed

declare terminal.simps [simp del]

text \<open>
  A node that lacks the child the checker reads: reading it is an index out of range or
  a nil dereference.
\<close>

definition malformed :: "node \<Rightarrow> bool" where
  "malformed c =
    (kind c = parenExpr \<and> child c = []
     \<or> kind c = selectorExpr \<and> length (child c) < 2
     \<or> kind c = indexExpr \<and> (case child c of [] \<Rightarrow> True | c' # _ \<Rightarrow> typ_of c' = None))"

section \<open>Properties\<close>

subsection \<open>Representability of integer constants\<close>

lemma bits_le_iff: "bits n \<le> k \<longleftrightarrow> n < 2 ^ k"
proof (induction n arbitrary: k rule: bits.induct)
  case (1 n)
  show ?case
  proof (cases "n = 0")
    case True
    then show ?thesis by (simp add: bits.simps)
  next
    case False
    note nz = this
    show ?thesis
    proof (cases k)
      case 0
      with nz show ?thesis by (simp add: bits.simps [of n])
    next
      case (Suc j)
      have "bits n \<le> Suc j \<longleftrightarrow> bits (n div 2) \<le> j"
        using nz by (simp add: bits.simps [of n])
      also have "\<dots> \<longleftrightarrow> n div 2 < 2 ^ j"
        using 1 nz by simp
      also have "\<dots> \<longleftrightarrow> n < 2 ^ Suc j"
        by auto
      finally show ?thesis using Suc by simp
    qed
  qed
qed

lemma nat_abs_less_power: "nat \<bar>L\<bar> < 2 ^ k \<longleftrightarrow> \<bar>L\<bar> < 2 ^ k"
  by (metis abs_ge_zero nat_less_iff of_nat_numeral of_nat_power)

text \<open>
  What the predicate accepts for a signed target: the integers that fit 64 bits and
  whose absolute value is below \<open>2 ^ N\<close>, \<open>N\<close> the entry of the table. For the 64-bit
  kinds this is the range of the type; for the narrower kinds it is almost twice as
  large.
\<close>

lemma representableConst_signed:
  assumes "isSigned t"
  shows "representableConst (CInt L) t \<longleftrightarrow>
           - (2 ^ 63) \<le> L \<and> L < 2 ^ 63 \<and> \<bar>L\<bar> < 2 ^ (bitlen ! kind_num t)"
  using assms
  by (auto simp: representableConst_def isInt_def bits_le_iff nat_abs_less_power)

text \<open>For an unsigned target the predicate accepts the range of the type.\<close>

lemma representableConst_unsigned:
  assumes "isUnsigned t"
  shows "representableConst (CInt L) t \<longleftrightarrow> 0 \<le> L \<and> L < 2 ^ (bitlen ! kind_num t)"
proof -
  have b: "bitlen ! kind_num t \<le> 64"
    using assms by (auto simp: isUnsigned_def bitlen_def)
  have c: "L < 2 ^ 64" if "L < 2 ^ (bitlen ! kind_num t)"
  proof -
    have "(2::int) ^ (bitlen ! kind_num t) \<le> 2 ^ 64"
      using b by (intro power_increasing) auto
    with that show ?thesis by linarith
  qed
  have d: "\<not> isSigned t"
    using assms by (auto simp: isUnsigned_def isSigned_def)
  show ?thesis
    using assms d c
    by (auto simp: representableConst_def isInt_def bits_le_iff nat_abs_less_power)
qed

text \<open>
  C1. The claim: for an N-bit signed target a literal is representable exactly when it
  lies between \<open>- 2 ^ (N - 1)\<close> and \<open>2 ^ (N - 1) - 1\<close>, so that 200 is not
  representable in the 8-bit signed kind. The predicate accepts 200 for
  \<^verbatim>\<open>reflect.Int8\<close>, although 200 is above \<open>2 ^ 7 - 1\<close>: the bit length of 200 is 8,
  which the table allows.
\<close>

theorem representableConst_200_Int8:
  "representableConst (CInt 200) Int8 \<and> \<not> (200 \<le> (2::int) ^ (8 - 1) - 1)"
  by code_simp

subsection \<open>Facts shared by the proofs\<close>

lemma node_sel [simp]:
  "typ_of (set_typ t n) = t" "rval (set_typ t n) = rval n"
  "typ_of (set_rval v n) = typ_of n" "rval (set_rval v n) = v"
  "child (set_child cs n) = cs"
  by (cases n; simp)+

lemma three_halves_not_int: "\<not> rat_is_int (3 / 2)"
  by code_simp

text \<open>
  \<^verbatim>\<open>convertUntyped\<close> does not panic: the representability check comes before
  every conversion of a constant and excludes the constants on which the conversion
  would. When it fails it leaves the type of the node as it was.
\<close>

lemma representable_Ok_const:
  "representable n t = Ok u \<Longrightarrow> rval n = RConst c \<Longrightarrow> representableConst c t"
  by (auto simp: representable_def Let_def split: if_splits option.splits)

lemma representable_no_panic: "typ_of n \<noteq> None \<Longrightarrow> representable n t \<noteq> Panic"
  by (auto simp: representable_def Let_def split: rvalue.splits if_splits option.splits)

lemma convertConst_no_panic:
  assumes "\<And>c. v = RConst c \<Longrightarrow> representableConst c t"
  shows "convertConst v t \<noteq> ConvPanic"
proof (cases v)
  case (RConst c')
  with assms have r: "representableConst c' t" by simp
  show ?thesis
  proof (cases c')
    case CUnknown
    with RConst show ?thesis
      by (auto simp: convertConst_def split: option.splits)
  next
    case (CBool b)
    with RConst r show ?thesis
      by (auto simp: convertConst_def representableConst_def isInt_def isSigned_def isUnsigned_def
          isFloat_def isComplex_def isString_def isBoolean_def split: if_splits)
  next
    case (CString s)
    with RConst r show ?thesis
      by (auto simp: convertConst_def representableConst_def isInt_def isSigned_def isUnsigned_def
          isFloat_def isComplex_def isString_def isBoolean_def split: if_splits)
  next
    case (CInt i)
    with RConst r show ?thesis
      by (auto simp: convertConst_def representableConst_def isInt_def isSigned_def isUnsigned_def
          isFloat_def isComplex_def isString_def isBoolean_def split: if_splits)
  next
    case (CFloat q)
    with RConst r show ?thesis
      by (auto simp: convertConst_def representableConst_def isInt_def isSigned_def isUnsigned_def
          isFloat_def isComplex_def isString_def isBoolean_def split: if_splits)
  next
    case (CComplex re im)
    with RConst r show ?thesis
      by (auto simp: convertConst_def representableConst_def isInt_def isSigned_def isUnsigned_def
          isFloat_def isComplex_def isString_def isBoolean_def split: if_splits)
  qed
qed (simp_all add: convertConst_def)

lemma convert_value_no_panic: "typ_of n \<noteq> None \<Longrightarrow> convert_value n ityp rtyp e \<noteq> Panic"
proof -
  assume t: "typ_of n \<noteq> None"
  show ?thesis
  proof (cases "representable n rtyp")
    case (Ok u)
    then have "convertConst (rval n) rtyp \<noteq> ConvPanic"
      by (intro convertConst_no_panic) (auto dest: representable_Ok_const)
    with Ok show ?thesis
      by (auto simp: convert_value_def split: convres.splits)
  next
    case (Err e' u)
    then show ?thesis by (simp add: convert_value_def)
  next
    case Panic
    with t show ?thesis by (simp add: representable_no_panic)
  qed
qed

lemma convertUntyped_no_panic: "convertUntyped n target \<noteq> Panic"
  by (auto simp: convertUntyped_def Let_def convert_value_no_panic
      split: option.splits)

lemma convert_value_Err_typ: "convert_value n ityp rtyp e = Err e' n' \<Longrightarrow> typ_of n' = typ_of n"
  by (auto simp: convert_value_def split: outcome.splits convres.splits)


lemma convert_value_typ: "convert_value n ityp rtyp e = Ok n' \<Longrightarrow> typ_of n' = Some ityp"
  by (auto simp: convert_value_def split: outcome.splits convres.splits)

lemma convertUntyped_typ_Some:
  "left_by (convertUntyped n target) = Some n' \<Longrightarrow> typ_of n = Some t \<Longrightarrow> typ_of n' \<noteq> None"
  by (cases "convertUntyped n target")
     (auto simp: convertUntyped_def Let_def split: option.splits if_splits
      dest: convert_value_Err_typ convert_value_typ)

subsection \<open>Division by an untyped zero\<close>

text \<open>
  C2. The claim: a division or remainder whose divisor is an untyped constant zero is
  rejected with "division by zero", also when the dividend has a concrete integer type.
  For \<^verbatim>\<open>x / 0\<close> with \<^verbatim>\<open>x\<close> of type int the checker returns no error: the
  second call of \<^verbatim>\<open>convertUntyped\<close> gives the divisor the type of the dividend,
  so that the divisor is no longer untyped when the test for a zero divisor looks at its
  untyped flag. The divisor is left as the native int 0.
\<close>

theorem binaryExpr_int_quo_zero:
  "binaryExpr
     \<lparr>equals = (\<lambda>a b. a = b), assignableTo = (\<lambda>a b. a = b), comparable = (\<lambda>a. True),
      ordered = (\<lambda>a. isNumber (rtype a) \<or> isString (rtype a)), hasNil = (\<lambda>a. False)\<rparr>
     (Node otherKind aQuo None RInvalid None 0 0
        [Node identExpr aOther
           (Some \<lparr>cat = intT, name = ''int'', untyped = False, rtype = IntK, methods = []\<rparr>)
           RInvalid None 0 0 [],
         Node otherKind aOther
           (Some \<lparr>cat = intT, name = ''int'', untyped = True, rtype = IntK, methods = []\<rparr>)
           (RConst (CInt 0)) None 0 0 []])
   = Ok (Node otherKind aQuo None RInvalid None 0 0
        [Node identExpr aOther
           (Some \<lparr>cat = intT, name = ''int'', untyped = False, rtype = IntK, methods = []\<rparr>)
           RInvalid None 0 0 [],
         Node otherKind aOther
           (Some \<lparr>cat = intT, name = ''int'', untyped = False, rtype = IntK, methods = []\<rparr>)
           (RInt IntK 0) None 0 0 []])"
  by code_simp

text \<open>
  With an untyped dividend both operands stay untyped and the error is returned:
  \<^verbatim>\<open>1 / 0\<close>.
\<close>

lemma binaryExpr_untyped_quo_zero:
  "binaryExpr
     \<lparr>equals = (\<lambda>a b. a = b), assignableTo = (\<lambda>a b. a = b), comparable = (\<lambda>a. True),
      ordered = (\<lambda>a. isNumber (rtype a) \<or> isString (rtype a)), hasNil = (\<lambda>a. False)\<rparr>
     (Node otherKind aQuo None RInvalid None 0 0
        [Node otherKind aOther
           (Some \<lparr>cat = intT, name = ''int'', untyped = True, rtype = IntK, methods = []\<rparr>)
           (RConst (CInt 1)) None 0 0 [],
         Node otherKind aOther
           (Some \<lparr>cat = intT, name = ''int'', untyped = True, rtype = IntK, methods = []\<rparr>)
           (RConst (CInt 0)) None 0 0 []])
   = Err DivisionByZero
      (Node otherKind aQuo None RInvalid None 0 0
        [Node otherKind aOther
           (Some \<lparr>cat = intT, name = ''int'', untyped = True, rtype = IntK, methods = []\<rparr>)
           (RConst (CInt 1)) None 0 0 [],
         Node otherKind aOther
           (Some \<lparr>cat = intT, name = ''int'', untyped = True, rtype = IntK, methods = []\<rparr>)
           (RConst (CInt 0)) None 0 0 []])"
  by code_simp

subsection \<open>Coercion between untyped numeric kinds\<close>

text \<open>
  C6. For an untyped numeric node and an untyped numeric target, the coercion succeeds,
  coercing the result toward the same target again changes nothing, the node stays
  untyped, and its kind afterwards is the wider (the greater in the order of the kinds)
  of its own kind and the target's: the kind is never replaced by a narrower one.
\<close>

theorem convertUntyped_untyped_numeric:
  assumes "typ_of n = Some nt" and "untyped nt" and "untyped tt"
    and "isNumber (TypeOf nt)" and "isNumber (TypeOf tt)"
  shows "\<exists>n' nt'. convertUntyped n (Some tt) = Ok n' \<and> convertUntyped n' (Some tt) = Ok n'
           \<and> typ_of n' = Some nt' \<and> untyped nt'
           \<and> TypeOf nt' =
               (if kind_num (TypeOf nt) < kind_num (TypeOf tt) then TypeOf tt else TypeOf nt)
           \<and> kind_num (TypeOf nt') = max (kind_num (TypeOf nt)) (kind_num (TypeOf tt))"
proof (cases "kind_num (TypeOf nt) < kind_num (TypeOf tt)")
  case True
  with assms have 1: "convertUntyped n (Some tt) = Ok (set_typ (Some tt) n)"
    by (simp add: convertUntyped_def)
  from assms have 2: "convertUntyped (set_typ (Some tt) n) (Some tt) = Ok (set_typ (Some tt) n)"
    by (simp add: convertUntyped_def)
  from 1 2 True assms show ?thesis by (auto simp: max_def)
next
  case False
  with assms have 1: "convertUntyped n (Some tt) = Ok n"
    by (simp add: convertUntyped_def)
  with False assms show ?thesis by (auto simp: max_def)
qed

text \<open>An untyped integer constant coerced toward an untyped float.\<close>

theorem convertUntyped_untyped_numeric_witness:
  "typ_of (Node otherKind aOther
       (Some \<lparr>cat = intT, name = ''int'', untyped = True, rtype = IntK, methods = []\<rparr>)
       (RConst (CInt 1)) None 0 0 [])
     = Some \<lparr>cat = intT, name = ''int'', untyped = True, rtype = IntK, methods = []\<rparr>
   \<and> isNumber (TypeOf \<lparr>cat = intT, name = ''int'', untyped = True, rtype = IntK, methods = []\<rparr>)
   \<and> isNumber (TypeOf \<lparr>cat = float64T, name = ''float64'', untyped = True, rtype = Float64,
        methods = []\<rparr>)
   \<and> (\<exists>n' nt'.
        convertUntyped (Node otherKind aOther
            (Some \<lparr>cat = intT, name = ''int'', untyped = True, rtype = IntK, methods = []\<rparr>)
            (RConst (CInt 1)) None 0 0 [])
          (Some \<lparr>cat = float64T, name = ''float64'', untyped = True, rtype = Float64,
             methods = []\<rparr>) = Ok n'
        \<and> convertUntyped n'
          (Some \<lparr>cat = float64T, name = ''float64'', untyped = True, rtype = Float64,
             methods = []\<rparr>) = Ok n'
        \<and> typ_of n' = Some nt' \<and> untyped nt' \<and> TypeOf nt' = Float64)"
proof -
  let ?i = "\<lparr>cat = intT, name = ''int'', untyped = True, rtype = IntK, methods = []\<rparr>"
  let ?f = "\<lparr>cat = float64T, name = ''float64'', untyped = True, rtype = Float64, methods = []\<rparr>"
  let ?n = "Node otherKind aOther (Some ?i) (RConst (CInt 1)) None 0 0 []"
  have h1: "typ_of ?n = Some ?i" by simp
  have h2: "untyped ?i" and h3: "untyped ?f" by simp_all
  have h4: "isNumber (TypeOf ?i)" and h5: "isNumber (TypeOf ?f)"
    by (simp_all add: isNumber_def isInt_def isSigned_def isFloat_def TypeOf_def)
  have k: "kind_num (TypeOf ?i) < kind_num (TypeOf ?f)"
    by (simp add: TypeOf_def)
  from convertUntyped_untyped_numeric [OF h1 h2 h3 h4 h5]
  obtain n' nt' where
    "convertUntyped ?n (Some ?f) = Ok n'" "convertUntyped n' (Some ?f) = Ok n'"
    "typ_of n' = Some nt'" "untyped nt'" "TypeOf nt' = TypeOf ?f"
    using k by auto
  then have "\<exists>n' nt'. convertUntyped ?n (Some ?f) = Ok n' \<and> convertUntyped n' (Some ?f) = Ok n'
      \<and> typ_of n' = Some nt' \<and> untyped nt' \<and> TypeOf nt' = Float64"
    by (auto simp: TypeOf_def)
  with h1 h4 h5 show ?thesis by blast
qed

subsection \<open>The shift checker writes before it fails\<close>

text \<open>
  C10. For a shift whose left operand is untyped (and holds a constant), the value slot
  of the operand is overwritten with the constant converted by \<^verbatim>\<open>ToInt\<close>, which
  may be Unknown, before the operand is checked: when the conversion gives no integer
  and the backing type is no integer type, the checker returns the "shift of type" error
  and leaves the node with the overwritten slot; and whatever error the checker returns,
  the slot of the left operand holds the converted constant.
\<close>

theorem shift_overwrites_before_error:
  assumes "child n = c0 # c1 # rest" and "typ_of c0 = Some ty0" and "typ_of c1 = Some ty1"
    and "untyped ty0" and "rval c0 = RConst c"
  shows "(Kind (ToInt c) \<noteq> KInt \<and> \<not> isInt (TypeOf ty0) \<longrightarrow>
            shift n = Err (ShiftOfType ty0)
              (set_child (set_rval (RConst (ToInt c)) c0 # c1 # rest) n))
       \<and> (\<forall>e n'. shift n = Err e n' \<longrightarrow>
            (\<exists>c1'. child n' = set_rval (RConst (ToInt c)) c0 # c1' # rest))"
  using assms
  by (auto simp: shift_def Let_def split: outcome.splits option.splits if_splits)

text \<open>
  The shift \<^verbatim>\<open>1.5 << 1\<close>: the error is returned, and the left operand, which held
  the float 3/2, holds Unknown.
\<close>

theorem shift_overwrites_before_error_witness:
  "shift (Node otherKind aShl None RInvalid None 0 0
        [Node otherKind aOther
           (Some \<lparr>cat = float64T, name = ''float64'', untyped = True, rtype = Float64,
              methods = []\<rparr>)
           (RConst (CFloat (3 / 2))) None 0 0 [],
         Node otherKind aOther
           (Some \<lparr>cat = intT, name = ''int'', untyped = True, rtype = IntK, methods = []\<rparr>)
           (RConst (CInt 1)) None 0 0 []])
   = Err (ShiftOfType \<lparr>cat = float64T, name = ''float64'', untyped = True, rtype = Float64,
            methods = []\<rparr>)
      (Node otherKind aShl None RInvalid None 0 0
        [Node otherKind aOther
           (Some \<lparr>cat = float64T, name = ''float64'', untyped = True, rtype = Float64,
              methods = []\<rparr>)
           (RConst CUnknown) None 0 0 [],
         Node otherKind aOther
           (Some \<lparr>cat = intT, name = ''int'', untyped = True, rtype = IntK, methods = []\<rparr>)
           (RConst (CInt 1)) None 0 0 []])
   \<and> RConst (CFloat (3 / 2)) \<noteq> RConst CUnknown"
proof -
  let ?f = "\<lparr>cat = float64T, name = ''float64'', untyped = True, rtype = Float64, methods = []\<rparr>"
  let ?i = "\<lparr>cat = intT, name = ''int'', untyped = True, rtype = IntK, methods = []\<rparr>"
  let ?c0 = "Node otherKind aOther (Some ?f) (RConst (CFloat (3 / 2))) None 0 0 []"
  let ?c1 = "Node otherKind aOther (Some ?i) (RConst (CInt 1)) None 0 0 []"
  let ?n = "Node otherKind aShl None RInvalid None 0 0 [?c0, ?c1]"
  have k: "Kind (ToInt (CFloat (3 / 2))) \<noteq> KInt \<and> \<not> isInt (TypeOf ?f)"
    by (simp add: three_halves_not_int isInt_def isSigned_def isUnsigned_def TypeOf_def)
  have "shift ?n = Err (ShiftOfType ?f)
          (set_child (set_rval (RConst (ToInt (CFloat (3 / 2)))) ?c0 # ?c1 # []) ?n)"
    using shift_overwrites_before_error [of ?n ?c0 ?c1 "[]" ?f ?i "CFloat (3 / 2)"] k
    by simp
  then show ?thesis
    by (simp add: three_halves_not_int)
qed

subsection \<open>Plain assignment of an untyped source\<close>

text \<open>
  C3. For a plain assignment whose source is untyped: with \<open>dt\<close> the destination type
  (its default type unless the assignment is in a constant declaration), the source is
  coerced toward its own default type when \<open>dt\<close> is the nil type or an interface, and
  toward \<open>dt\<close> otherwise. After the coercion, the checker fails with "cannot use type
  X as type Y in assignment" when the type the source now has is not assignable to
  \<open>dt\<close>, and succeeds otherwise. A failure of the coercion itself is returned as it
  is, and one of the two happens.
\<close>

theorem assignExpr_untyped_source:
  assumes "action n = aAssign" and "anc n = Some ak"
    and "typ_of dest = Some dt0" and "typ_of src = Some st" and "untyped st"
    and "dt = (if ak = constDecl then dt0 else defaultType dt0)"
    and "dest' = (if ak = constDecl then dest else set_typ (Some dt) dest)"
    and "target = (if isNil dt \<or> isInterface dt then defaultType st else dt)"
  shows "(\<forall>src' st'. convertUntyped src (Some target) = Ok src' \<and> typ_of src' = Some st' \<longrightarrow>
            assignExpr tm n dest src =
              (if assignableTo tm st' dt then Ok (n, dest', src')
               else Err (CannotUse st' dt) (n, dest', src')))
       \<and> (\<forall>e src'. convertUntyped src (Some target) = Err e src' \<longrightarrow>
            assignExpr tm n dest src = Err e (n, dest', src'))
       \<and> (\<exists>src'. left_by (convertUntyped src (Some target)) = Some src' \<and> typ_of src' \<noteq> None)"
proof -
  have d: "typ_of dest' = Some dt"
    using assms by simp
  have p: "convertUntyped src (Some target) \<noteq> Panic"
    by (rule convertUntyped_no_panic)
  have e: "\<exists>src'. left_by (convertUntyped src (Some target)) = Some src' \<and> typ_of src' \<noteq> None"
  proof (cases "convertUntyped src (Some target)")
    case (Ok s)
    then have "left_by (convertUntyped src (Some target)) = Some s" by simp
    from convertUntyped_typ_Some [OF this assms(4)] Ok show ?thesis by simp
  next
    case (Err x s)
    then have "left_by (convertUntyped src (Some target)) = Some s" by simp
    from convertUntyped_typ_Some [OF this assms(4)] Err show ?thesis by simp
  next
    case Panic
    with p show ?thesis by simp
  qed
  show ?thesis
    using assms d e
    by (auto simp: assignExpr_def check_assignable_def Let_def)
qed

text \<open>The assignment of the untyped constant 1 to a variable of type int.\<close>

theorem assignExpr_untyped_source_witness:
  "assignExpr
     \<lparr>equals = (\<lambda>a b. a = b), assignableTo = (\<lambda>a b. a = b), comparable = (\<lambda>a. True),
      ordered = (\<lambda>a. isNumber (rtype a) \<or> isString (rtype a)), hasNil = (\<lambda>a. False)\<rparr>
     (Node otherKind aAssign None RInvalid (Some otherKind) 1 1 [])
     (Node identExpr aOther
        (Some \<lparr>cat = intT, name = ''int'', untyped = False, rtype = IntK, methods = []\<rparr>)
        RInvalid None 0 0 [])
     (Node otherKind aOther
        (Some \<lparr>cat = intT, name = ''int'', untyped = True, rtype = IntK, methods = []\<rparr>)
        (RConst (CInt 1)) None 0 0 [])
   = Ok (Node otherKind aAssign None RInvalid (Some otherKind) 1 1 [],
         Node identExpr aOther
           (Some \<lparr>cat = intT, name = ''int'', untyped = False, rtype = IntK, methods = []\<rparr>)
           RInvalid None 0 0 [],
         Node otherKind aOther
           (Some \<lparr>cat = intT, name = ''int'', untyped = False, rtype = IntK, methods = []\<rparr>)
           (RInt IntK 1) None 0 0 [])"
proof -
  let ?tm = "\<lparr>equals = (\<lambda>a b. a = b), assignableTo = (\<lambda>a b. a = b), comparable = (\<lambda>a. True),
      ordered = (\<lambda>a. isNumber (rtype a) \<or> isString (rtype a)), hasNil = (\<lambda>a. False)\<rparr>"
  let ?int = "\<lparr>cat = intT, name = ''int'', untyped = False, rtype = IntK, methods = []\<rparr>"
  let ?u = "\<lparr>cat = intT, name = ''int'', untyped = True, rtype = IntK, methods = []\<rparr>"
  let ?n = "Node otherKind aAssign None RInvalid (Some otherKind) 1 1 []"
  let ?dest = "Node identExpr aOther (Some ?int) RInvalid None 0 0 []"
  let ?src = "Node otherKind aOther (Some ?u) (RConst (CInt 1)) None 0 0 []"
  let ?src' = "Node otherKind aOther (Some ?int) (RInt IntK 1) None 0 0 []"
  have h1: "action ?n = aAssign" and h2: "anc ?n = Some otherKind"
    and h3: "typ_of ?dest = Some ?int" and h4: "typ_of ?src = Some ?u" and h5: "untyped ?u"
    by simp_all
  have h6: "?int = (if otherKind = constDecl then ?int else defaultType ?int)"
    by (simp add: defaultType_def)
  have h7: "?dest = (if otherKind = constDecl then ?dest else set_typ (Some ?int) ?dest)"
    by simp
  have h8: "?int = (if isNil ?int \<or> isInterface ?int then defaultType ?u else ?int)"
    by (simp add: isNil_def isInterface_def)
  have c: "convertUntyped ?src (Some ?int) = Ok ?src'"
    by code_simp
  have t: "typ_of ?src' = Some ?int" by simp
  from assignExpr_untyped_source [OF h1 h2 h3 h4 h5 h6 h7 h8, of ?tm] c t
  have "assignExpr ?tm ?n ?dest ?src =
          (if assignableTo ?tm ?int ?int then Ok (?n, ?dest, ?src')
           else Err (CannotUse ?int ?int) (?n, ?dest, ?src'))"
    by blast
  then show ?thesis by simp
qed

subsection \<open>Comparisons\<close>

text \<open>
  C5. For a comparison of two typed operands: when neither type is assignable to the
  other the checker fails with "mismatched types". Otherwise \<^verbatim>\<open>==\<close> and
  \<^verbatim>\<open>!=\<close> succeed exactly when both types are comparable or one operand is nil and
  the type of the other admits nil; the ordering operators succeed exactly when both
  types are ordered; and a failure is the "operator not defined" error on the type of the
  first operand, or of the second when the first is nil: the type of an operand that is
  not nil, whenever there is one.
\<close>

theorem comparison_legal:
  assumes "child n = c0 # c1 # rest" and "typ_of c0 = Some t0" and "typ_of c1 = Some t1"
  shows "(\<not> assignableTo tm t0 t1 \<and> \<not> assignableTo tm t1 t0 \<longrightarrow>
            comparison tm n = Err (MismatchedTypes t0 t1) n)
       \<and> (assignableTo tm t0 t1 \<or> assignableTo tm t1 t0 \<longrightarrow>
            (action n \<in> {aEqual, aNotEqual} \<longrightarrow>
               (comparison tm n = Ok n \<longleftrightarrow>
                  comparable tm t0 \<and> comparable tm t1 \<or> isNil t0 \<and> hasNil tm t1
                    \<or> isNil t1 \<and> hasNil tm t0))
          \<and> (action n \<in> {aLower, aLowerEqual, aGreater, aGreaterEqual} \<longrightarrow>
               (comparison tm n = Ok n \<longleftrightarrow> ordered tm t0 \<and> ordered tm t1))
          \<and> (comparison tm n \<noteq> Ok n \<longrightarrow>
               comparison tm n = Err (OpNotDefined (action n) (if isNil t0 then t1 else t0)) n
               \<and> (\<not> isNil t0 \<or> \<not> isNil t1 \<longrightarrow> \<not> isNil (if isNil t0 then t1 else t0))))"
  using assms by (auto simp: comparison_def Let_def)

text \<open>The comparison \<^verbatim>\<open>a < b\<close> of two booleans.\<close>

theorem comparison_legal_witness:
  "comparison
     \<lparr>equals = (\<lambda>a b. a = b), assignableTo = (\<lambda>a b. a = b), comparable = (\<lambda>a. True),
      ordered = (\<lambda>a. isNumber (rtype a) \<or> isString (rtype a)), hasNil = (\<lambda>a. False)\<rparr>
     (Node otherKind aLower None RInvalid None 0 0
        [Node identExpr aOther
           (Some \<lparr>cat = boolT, name = ''bool'', untyped = False, rtype = Bool, methods = []\<rparr>)
           RInvalid None 0 0 [],
         Node identExpr aOther
           (Some \<lparr>cat = boolT, name = ''bool'', untyped = False, rtype = Bool, methods = []\<rparr>)
           RInvalid None 0 0 []])
   = Err (OpNotDefined aLower
            \<lparr>cat = boolT, name = ''bool'', untyped = False, rtype = Bool, methods = []\<rparr>)
      (Node otherKind aLower None RInvalid None 0 0
        [Node identExpr aOther
           (Some \<lparr>cat = boolT, name = ''bool'', untyped = False, rtype = Bool, methods = []\<rparr>)
           RInvalid None 0 0 [],
         Node identExpr aOther
           (Some \<lparr>cat = boolT, name = ''bool'', untyped = False, rtype = Bool, methods = []\<rparr>)
           RInvalid None 0 0 []])"
proof -
  let ?tm = "\<lparr>equals = (\<lambda>a b. a = b), assignableTo = (\<lambda>a b. a = b), comparable = (\<lambda>a. True),
      ordered = (\<lambda>a. isNumber (rtype a) \<or> isString (rtype a)), hasNil = (\<lambda>a. False)\<rparr>"
  let ?b = "\<lparr>cat = boolT, name = ''bool'', untyped = False, rtype = Bool, methods = []\<rparr>"
  let ?c = "Node identExpr aOther (Some ?b) RInvalid None 0 0 []"
  let ?n = "Node otherKind aLower None RInvalid None 0 0 [?c, ?c]"
  have h1: "child ?n = ?c # ?c # []" and h2: "typ_of ?c = Some ?b" by simp_all
  have a: "assignableTo ?tm ?b ?b" by simp
  have o: "\<not> ordered ?tm ?b"
    by (simp add: isNumber_def isInt_def isSigned_def isUnsigned_def isFloat_def isComplex_def
        isString_def)
  have k: "action ?n \<in> {aLower, aLowerEqual, aGreater, aGreaterEqual}" by simp
  have i: "\<not> isNil ?b" by (simp add: isNil_def)
  from comparison_legal [OF h1 h2 h2, of ?tm] a o k
  have "comparison ?tm ?n \<noteq> Ok ?n" by blast
  with comparison_legal [OF h1 h2 h2, of ?tm] a
  have "comparison ?tm ?n = Err (OpNotDefined (action ?n) (if isNil ?b then ?b else ?b)) ?n"
    by blast
  then show ?thesis by simp
qed

subsection \<open>Address-of\<close>

lemma address_of_unwrap: "unwrap c = Some c' \<Longrightarrow> address_of c = address_of c'"
  by (cases c) (auto simp: unwrap_def split: if_splits list.splits option.splits)

lemma address_of_stop:
  "unwrap c = None \<Longrightarrow>
     address_of c =
       (if kind c = compositeLitExpr \<or> kind c = identExpr then Ok ()
        else if malformed c then Panic
        else cannot_take_address c)"
  by (cases c)
     (auto simp: unwrap_def malformed_def split: if_splits list.splits option.splits)

lemma unwrap_terminal: "unwrap (terminal c) = None"
proof (induction c rule: terminal.induct)
  case (1 c)
  then show ?case
    by (cases "unwrap c") (simp_all add: terminal.simps [of c])
qed

lemma address_of_terminal: "address_of c = address_of (terminal c)"
proof (induction c rule: terminal.induct)
  case (1 c)
  then show ?case
    by (cases "unwrap c") (simp_all add: terminal.simps [of c] address_of_unwrap)
qed

text \<open>
  C4. The checker succeeds exactly when repeated unwrapping of the operand
  (parenthesized expressions, selector expressions, index expressions whose base is an
  array or a map) reaches a composite literal or an identifier; when it reaches any
  other form (one that has the children and the type the checker reads) the result is the
  "cannot take address of" error on the type of that form.
\<close>

theorem addressExpr_terminal:
  assumes "child n = c0 # cs"
  shows "(addressExpr n = Ok n \<longleftrightarrow> kind (terminal c0) \<in> {compositeLitExpr, identExpr})
       \<and> (kind (terminal c0) \<notin> {compositeLitExpr, identExpr} \<and> \<not> malformed (terminal c0)
            \<and> typ_of (terminal c0) = Some ty \<longrightarrow>
          addressExpr n = Err (CannotTakeAddress ty) n)"
proof -
  have "address_of c0 =
       (if kind (terminal c0) = compositeLitExpr \<or> kind (terminal c0) = identExpr then Ok ()
        else if malformed (terminal c0) then Panic
        else cannot_take_address (terminal c0))"
    using address_of_stop [OF unwrap_terminal, of c0] address_of_terminal [of c0] by simp
  with assms show ?thesis
    by (auto simp: addressExpr_def cannot_take_address_def split: option.splits)
qed

text \<open>
  The address of \<^verbatim>\<open>m[k]\<close> for a map \<^verbatim>\<open>m\<close> is accepted; the address of a
  parenthesized form that is neither a literal nor an identifier is not.
\<close>

theorem addressExpr_terminal_witness:
  "addressExpr (Node otherKind aOther None RInvalid None 0 0
      [Node indexExpr aOther
         (Some \<lparr>cat = intT, name = ''int'', untyped = False, rtype = IntK, methods = []\<rparr>)
         RInvalid None 0 0
         [Node identExpr aOther
            (Some \<lparr>cat = mapT, name = [], untyped = False, rtype = Map, methods = []\<rparr>)
            RInvalid None 0 0 [],
          Node identExpr aOther
            (Some \<lparr>cat = stringT, name = ''string'', untyped = False, rtype = String,
               methods = []\<rparr>)
            RInvalid None 0 0 []]])
   = Ok (Node otherKind aOther None RInvalid None 0 0
      [Node indexExpr aOther
         (Some \<lparr>cat = intT, name = ''int'', untyped = False, rtype = IntK, methods = []\<rparr>)
         RInvalid None 0 0
         [Node identExpr aOther
            (Some \<lparr>cat = mapT, name = [], untyped = False, rtype = Map, methods = []\<rparr>)
            RInvalid None 0 0 [],
          Node identExpr aOther
            (Some \<lparr>cat = stringT, name = ''string'', untyped = False, rtype = String,
               methods = []\<rparr>)
            RInvalid None 0 0 []]])
   \<and> addressExpr (Node otherKind aOther None RInvalid None 0 0
      [Node parenExpr aOther None RInvalid None 0 0
         [Node otherKind aOther
            (Some \<lparr>cat = intT, name = ''int'', untyped = False, rtype = IntK, methods = []\<rparr>)
            RInvalid None 0 0 []]])
   = Err (CannotTakeAddress
            \<lparr>cat = intT, name = ''int'', untyped = False, rtype = IntK, methods = []\<rparr>)
      (Node otherKind aOther None RInvalid None 0 0
      [Node parenExpr aOther None RInvalid None 0 0
         [Node otherKind aOther
            (Some \<lparr>cat = intT, name = ''int'', untyped = False, rtype = IntK, methods = []\<rparr>)
            RInvalid None 0 0 []]])"
proof -
  let ?int = "\<lparr>cat = intT, name = ''int'', untyped = False, rtype = IntK, methods = []\<rparr>"
  let ?m = "Node identExpr aOther
      (Some \<lparr>cat = mapT, name = [], untyped = False, rtype = Map, methods = []\<rparr>)
      RInvalid None 0 0 []"
  let ?k = "Node identExpr aOther
      (Some \<lparr>cat = stringT, name = ''string'', untyped = False, rtype = String, methods = []\<rparr>)
      RInvalid None 0 0 []"
  let ?ix = "Node indexExpr aOther (Some ?int) RInvalid None 0 0 [?m, ?k]"
  let ?n1 = "Node otherKind aOther None RInvalid None 0 0 [?ix]"
  let ?e = "Node otherKind aOther (Some ?int) RInvalid None 0 0 []"
  let ?p = "Node parenExpr aOther None RInvalid None 0 0 [?e]"
  let ?n2 = "Node otherKind aOther None RInvalid None 0 0 [?p]"
  have t1: "terminal ?ix = ?m" by code_simp
  have t2: "terminal ?p = ?e" by code_simp
  have h1: "child ?n1 = ?ix # []" and h2: "child ?n2 = ?p # []" by simp_all
  have m: "\<not> malformed ?e" by (simp add: malformed_def)
  have 1: "addressExpr ?n1 = Ok ?n1"
    using addressExpr_terminal [OF h1, of ?int] by (simp add: t1)
  have 2: "addressExpr ?n2 = Err (CannotTakeAddress ?int) ?n2"
    using addressExpr_terminal [OF h2, of ?int] m by (simp add: t2)
  from 1 2 show ?thesis by simp
qed

subsection \<open>The operands of a shift\<close>




subsection \<open>The diagnostic of a constant that is not representable\<close>

text \<open>
  The claim C8 says that the diagnostic is "truncated" exactly when a non-integral
  value is narrowed into an integer target. The checker decides by the backing type of
  the node, not by the value: the untyped float constant 300.0, which is integral, does
  not fit the 8-bit signed kind, and the diagnostic is "truncated".
\<close>

theorem representable_integral_float_counterexample:
  "representable
     (Node otherKind aOther
        (Some \<lparr>cat = float64T, name = ''float64'', untyped = True, rtype = Float64,
           methods = []\<rparr>)
        (RConst (CFloat 300)) None 0 0 [])
     Int8
   = Err (Truncated (CFloat 300) Int8) ()
   \<and> rat_is_int 300"
  by code_simp

text \<open>
  C8, amended. For a node whose constant fails the representability check: the
  diagnostic is "truncated" exactly when the backing type of the node is numeric and not
  an integer type and the target is an integer type; it is "overflows" for every other
  pair of a numeric backing type and a numeric target; and it is the generic "cannot
  convert" exactly when the backing type or the target is not numeric.
\<close>

theorem representable_diagnostic:
  assumes "rval n = RConst c" and "typ_of n = Some nt" and "\<not> representableConst c t"
  shows "(representable n t = Err (Truncated c t) () \<longleftrightarrow>
            isNumber (TypeOf nt) \<and> \<not> isInt (TypeOf nt) \<and> isInt t)
       \<and> (representable n t = Err (Overflows c t) () \<longleftrightarrow>
            isNumber (TypeOf nt) \<and> isNumber t \<and> \<not> (\<not> isInt (TypeOf nt) \<and> isInt t))
       \<and> (representable n t = Err (CannotConvertConst c t) () \<longleftrightarrow>
            \<not> (isNumber (TypeOf nt) \<and> isNumber t))"
  using assms by (auto simp: representable_def Let_def isNumber_def)

text \<open>The untyped float constant 3.5 and the target int.\<close>

theorem representable_diagnostic_witness:
  "representable
     (Node otherKind aOther
        (Some \<lparr>cat = float64T, name = ''float64'', untyped = True, rtype = Float64,
           methods = []\<rparr>)
        (RConst (CFloat (7 / 2))) None 0 0 [])
     IntK
   = Err (Truncated (CFloat (7 / 2)) IntK) ()"
proof -
  let ?f = "\<lparr>cat = float64T, name = ''float64'', untyped = True, rtype = Float64, methods = []\<rparr>"
  let ?n = "Node otherKind aOther (Some ?f) (RConst (CFloat (7 / 2))) None 0 0 []"
  have h1: "rval ?n = RConst (CFloat (7 / 2))" and h2: "typ_of ?n = Some ?f" by simp_all
  have h3: "\<not> representableConst (CFloat (7 / 2)) IntK" by code_simp
  have k: "isNumber (TypeOf ?f) \<and> \<not> isInt (TypeOf ?f) \<and> isInt IntK"
    by (simp add: TypeOf_def isNumber_def isInt_def isSigned_def isUnsigned_def isFloat_def)
  from representable_diagnostic [OF h1 h2 h3] k show ?thesis by blast
qed

subsection \<open>What a successful coercion leaves\<close>

text \<open>
  The claim C9 says that after a successful coercion toward a specified target that is
  not untyped the type of the node is no longer untyped. The coercion of the untyped nil
  toward a pointer type succeeds and leaves the node as it was, with its untyped type.
\<close>

theorem convertUntyped_nil_pointer_counterexample:
  "convertUntyped
     (Node identExpr aOther
        (Some \<lparr>cat = nilT, name = ''nil'', untyped = True, rtype = Invalid, methods = []\<rparr>)
        RInvalid None 0 0 [])
     (Some \<lparr>cat = ptrT, name = [], untyped = False, rtype = Ptr, methods = []\<rparr>)
   = Ok (Node identExpr aOther
        (Some \<lparr>cat = nilT, name = ''nil'', untyped = True, rtype = Invalid, methods = []\<rparr>)
        RInvalid None 0 0 [])
   \<and> untyped \<lparr>cat = nilT, name = ''nil'', untyped = True, rtype = Invalid, methods = []\<rparr>
   \<and> \<not> untyped \<lparr>cat = ptrT, name = [], untyped = False, rtype = Ptr, methods = []\<rparr>"
  by code_simp

lemma defaultType_not_untyped: "\<not> untyped (defaultType t)"
  by (auto simp: defaultType_def split: option.splits)

lemma convert_value_Ok:
  "convert_value n ityp rtyp e = Ok n' \<Longrightarrow>
     \<exists>v. convertConst (rval n) rtyp = Conv v \<and> n' = set_typ (Some ityp) (set_rval v n)"
  by (auto simp: convert_value_def split: outcome.splits convres.splits)

text \<open>
  C9, amended. For an untyped node on which the coercion toward a specified target that
  is not untyped succeeds, one of three holds. The node is nil and the target is an
  interface, an array, a map, a channel, a function or a pointer: the node is unchanged,
  its type still untyped and its value slot as it was. Or the node and the target are
  both nil: the node has the target type and its value slot is as it was. Or the type
  of the node is no longer untyped and its value slot holds the result of
  \<^verbatim>\<open>convertConst\<close> on the old slot: with the target type, for a numeric, string
  or boolean target; with the default type of the node and toward the node's own backing
  type, for an interface target and a node that is not nil. The value slot is never
  emptied.
\<close>

theorem convertUntyped_success:
  assumes "typ_of n = Some nt" and "untyped nt" and "\<not> untyped ty"
    and "convertUntyped n (Some ty) = Ok n'"
  shows "(isNil nt \<and> \<not> isNil ty
            \<and> (isInterface ty \<or> isArray ty \<or> isMap ty \<or> isChan ty \<or> isFunc ty \<or> isPtr ty)
            \<and> n' = n)
       \<or> (isNil nt \<and> isNil ty \<and> n' = set_typ (Some ty) n)
       \<or> (\<exists>ityp rtyp v. typ_of n' = Some ityp \<and> \<not> untyped ityp \<and> rval n' = v
            \<and> convertConst (rval n) rtyp = Conv v
            \<and> ((isNumber (TypeOf ty) \<or> isString (TypeOf ty) \<or> isBoolean (TypeOf ty))
                  \<and> ityp = ty \<and> rtyp = TypeOf ty
                \<or> isInterface ty \<and> \<not> isNil nt \<and> ityp = defaultType nt \<and> rtyp = TypeOf nt))"
proof (cases "isNil ty \<and> isNil nt")
  case True
  with assms show ?thesis by (simp add: convertUntyped_def Let_def)
next
  case nn: False
  show ?thesis
  proof (cases "isNumber (TypeOf ty) \<or> isString (TypeOf ty) \<or> isBoolean (TypeOf ty)")
    case True
    with assms nn have "convert_value n ty (TypeOf ty) (CannotConvert nt ty) = Ok n'"
      by (simp add: convertUntyped_def Let_def)
    from convert_value_Ok [OF this] True assms(3) show ?thesis by auto
  next
    case basic: False
    show ?thesis
    proof (cases "isInterface ty")
      case True
      show ?thesis
      proof (cases "isNil nt")
        case True
        with assms nn basic \<open>isInterface ty\<close> show ?thesis
          by (auto simp: convertUntyped_def Let_def)
      next
        case False
        with assms nn basic True
        have "convert_value n (defaultType nt) (TypeOf nt) (CannotConvert nt ty) = Ok n'"
          by (auto simp: convertUntyped_def Let_def split: if_splits)
        from convert_value_Ok [OF this] True False show ?thesis
          by (auto simp: defaultType_not_untyped)
      qed
    next
      case False
      with assms nn basic show ?thesis
        by (auto simp: convertUntyped_def Let_def split: if_splits)
    qed
  qed
qed

text \<open>The untyped constant 1 coerced toward int8.\<close>

theorem convertUntyped_success_witness:
  "convertUntyped
     (Node otherKind aOther
        (Some \<lparr>cat = intT, name = ''int'', untyped = True, rtype = IntK, methods = []\<rparr>)
        (RConst (CInt 1)) None 0 0 [])
     (Some \<lparr>cat = int8T, name = ''int8'', untyped = False, rtype = Int8, methods = []\<rparr>)
   = Ok (Node otherKind aOther
        (Some \<lparr>cat = int8T, name = ''int8'', untyped = False, rtype = Int8, methods = []\<rparr>)
        (RInt Int8 1) None 0 0 [])
   \<and> (\<exists>v. RInt Int8 1 = v \<and> convertConst (RConst (CInt 1)) Int8 = Conv v)"
proof -
  let ?u = "\<lparr>cat = intT, name = ''int'', untyped = True, rtype = IntK, methods = []\<rparr>"
  let ?t = "\<lparr>cat = int8T, name = ''int8'', untyped = False, rtype = Int8, methods = []\<rparr>"
  let ?n = "Node otherKind aOther (Some ?u) (RConst (CInt 1)) None 0 0 []"
  let ?n' = "Node otherKind aOther (Some ?t) (RInt Int8 1) None 0 0 []"
  have h1: "typ_of ?n = Some ?u" and h2: "untyped ?u" and h3: "\<not> untyped ?t" by simp_all
  have h4: "convertUntyped ?n (Some ?t) = Ok ?n'" by code_simp
  have i: "\<not> isNil ?u" and j: "\<not> isInterface ?t"
    by (simp_all add: isNil_def isInterface_def)
  from convertUntyped_success [OF h1 h2 h3 h4] i j
  have "\<exists>v. rval ?n' = v \<and> convertConst (rval ?n) (TypeOf ?t) = Conv v"
    by auto
  then have "\<exists>v. RInt Int8 1 = v \<and> convertConst (RConst (CInt 1)) Int8 = Conv v"
    by (simp add: TypeOf_def)
  with h4 show ?thesis by blast
qed

end
